theory Spec2Isabelle
  imports Complex_Main "HOL-Library.Sublist"
begin

section \<open>Python values\<close>

text \<open>
  The handler of \<^verbatim>\<open>main.py\<close> moves Python values around without looking inside them:
  whatever the JSON body holds under \<^verbatim>\<open>bucket\<close> goes into the outbound payload as it is.
  The values are therefore modelled as a datatype. A \<^verbatim>\<open>dict\<close> with string keys is an
  association list in insertion order (its keys are distinct in a value Python built;
  a lookup takes the first entry of a key). A \<^verbatim>\<open>float\<close> is a finite number, an infinity or
  NaN: Python's \<^verbatim>\<open>json\<close> module reads all of them.
\<close>

datatype pyfloat = Finite real | PosInf | NegInf | NaN

datatype pyval =
    PNone
  | PBool bool
  | PInt int
  | PFloat pyfloat
  | PStr string
  | PList "pyval list"
  | PDict "(string \<times> pyval) list"

text \<open>
  The exceptions the program can meet. \<^verbatim>\<open>HTTPError\<close> is \<^verbatim>\<open>requests.HTTPError\<close>,
  \<^verbatim>\<open>AttributeError\<close> is what a method call on a value without that method raises,
  \<^verbatim>\<open>BadRequest\<close> is what Flask's \<^verbatim>\<open>get_json\<close> raises when it is not silent, and
  \<^verbatim>\<open>OtherException cls msg\<close> is any other subclass of \<^verbatim>\<open>Exception\<close> that the
  authorised session raises (a timeout, a connection error, a failed token refresh),
  with its class name and its text. The last four are the exceptions of Python that are
  not subclasses of \<^verbatim>\<open>Exception\<close>: \<^verbatim>\<open>SystemExit\<close>, \<^verbatim>\<open>KeyboardInterrupt\<close> (an
  interrupt that arrives while the outbound call blocks), \<^verbatim>\<open>GeneratorExit\<close>, and
  \<^verbatim>\<open>OtherBaseException cls msg\<close> for any other direct subclass of
  \<^verbatim>\<open>BaseException\<close>; each with its text.
\<close>

datatype exn =
    HTTPError string
  | AttributeError string
  | BadRequest string
  | OtherException string string
  | SystemExit string
  | KeyboardInterrupt string
  | GeneratorExit string
  | OtherBaseException string string

text \<open>\<^verbatim>\<open>str(e)\<close> of an exception built from one message is that message.\<close>

fun str_exn :: "exn \<Rightarrow> string" where
  "str_exn (HTTPError msg) = msg"
| "str_exn (AttributeError msg) = msg"
| "str_exn (BadRequest msg) = msg"
| "str_exn (OtherException cls msg) = msg"
| "str_exn (SystemExit msg) = msg"
| "str_exn (KeyboardInterrupt msg) = msg"
| "str_exn (GeneratorExit msg) = msg"
| "str_exn (OtherBaseException cls msg) = msg"

text \<open>
  \<^verbatim>\<open>isinstance(e, Exception)\<close>: what the clause \<^verbatim>\<open>except Exception\<close> of line 126
  catches.
\<close>

fun is_Exception :: "exn \<Rightarrow> bool" where
  "is_Exception (HTTPError msg) = True"
| "is_Exception (AttributeError msg) = True"
| "is_Exception (BadRequest msg) = True"
| "is_Exception (OtherException cls msg) = True"
| "is_Exception (SystemExit msg) = False"
| "is_Exception (KeyboardInterrupt msg) = False"
| "is_Exception (GeneratorExit msg) = False"
| "is_Exception (OtherBaseException cls msg) = False"

text \<open>Python's truth value of an object, as \<^verbatim>\<open>if request_json:\<close> takes it.\<close>

fun truthy :: "pyval \<Rightarrow> bool" where
  "truthy PNone = False"
| "truthy (PBool b) = b"
| "truthy (PInt i) = (i \<noteq> 0)"
| "truthy (PFloat f) = (f \<noteq> Finite 0)"
| "truthy (PStr s) = (s \<noteq> [])"
| "truthy (PList xs) = (xs \<noteq> [])"
| "truthy (PDict kvs) = (kvs \<noteq> [])"

fun type_name :: "pyval \<Rightarrow> string" where
  "type_name PNone = ''NoneType''"
| "type_name (PBool b) = ''bool''"
| "type_name (PInt i) = ''int''"
| "type_name (PFloat f) = ''float''"
| "type_name (PStr s) = ''str''"
| "type_name (PList xs) = ''list''"
| "type_name (PDict kvs) = ''dict''"

text \<open>A text between two apostrophes, as Python's messages quote a name.\<close>

definition quoted :: "string \<Rightarrow> string" where
  "quoted s = CHR 0x27 # s @ [CHR 0x27]"

text \<open>
  \<^verbatim>\<open>obj.get(key, default)\<close>: on a dict the value under the key, or the default when the key
  is absent; on any other value of the datatype there is no attribute \<^verbatim>\<open>get\<close>, and Python
  raises \<^verbatim>\<open>AttributeError\<close>.
\<close>

fun py_get :: "pyval \<Rightarrow> string \<Rightarrow> pyval \<Rightarrow> exn + pyval" where
  "py_get (PDict kvs) k d = Inr (case map_of kvs k of None \<Rightarrow> d | Some v \<Rightarrow> v)"
| "py_get v k d =
     Inl (AttributeError (quoted (type_name v) @ '' object has no attribute '' @ quoted ''get''))"

text \<open>\<^verbatim>\<open>str(n)\<close> of a Python integer: its decimal digits, with a minus sign below zero.\<close>

fun str_nat :: "nat \<Rightarrow> string" where
  "str_nat n =
     (if n < 10 then [''0123456789'' ! n]
      else str_nat (n div 10) @ [''0123456789'' ! (n mod 10)])"

declare str_nat.simps [simp del]

definition str_int :: "int \<Rightarrow> string" where
  "str_int i = (if i < 0 then ''-'' @ str_nat (nat (- i)) else str_nat (nat i))"

section \<open>The outbound side: the authorised session and its responses\<close>

text \<open>
  A response of the \<^verbatim>\<open>requests\<close> library, with the attributes the program reads.
  \<^verbatim>\<open>headers\<close> holds the text that formatting \<^verbatim>\<open>response.headers\<close> in an f-string gives
  (the program reads the headers in no other way), \<^verbatim>\<open>resp_text\<close> is \<^verbatim>\<open>response.text\<close>.
\<close>

record response =
  status_code :: int
  reason :: string
  url :: string
  headers :: string
  resp_text :: string

text \<open>
  One call \<^verbatim>\<open>authed_session.request(method, url, **kwargs)\<close>. The keyword arguments are a
  dict with string keys, in insertion order.
\<close>

record call =
  call_method :: string
  call_url :: string
  call_kwargs :: "(string \<times> pyval) list"

text \<open>
  The authorised session with the remote server behind it is the environment: it answers a
  call with a response, or raises. The functions below take it as a parameter and return,
  next to their result, the list of the calls they issued.
\<close>

type_synonym session = "call \<Rightarrow> exn + response"

text \<open>
  \<^verbatim>\<open>Response.raise_for_status\<close> of \<^verbatim>\<open>requests\<close> (models.py): it raises for the client
  errors (400 to 499) and the server errors (500 to 599), and returns \<^verbatim>\<open>None\<close> for every
  other status code.
\<close>

definition raise_for_status :: "response \<Rightarrow> exn + unit" where
  "raise_for_status r =
     (if 400 \<le> status_code r \<and> status_code r < 500 then
        Inl (HTTPError (str_int (status_code r) @ '' Client Error: '' @ reason r
                        @ '' for url: '' @ url r))
      else if 500 \<le> status_code r \<and> status_code r < 600 then
        Inl (HTTPError (str_int (status_code r) @ '' Server Error: '' @ reason r
                        @ '' for url: '' @ url r))
      else Inr ())"

text \<open>
  \<^verbatim>\<open>make_composer2_web_server_request(url, method, **kwargs)\<close>, lines 18 to 38: the default
  timeout is stored under the key \<^verbatim>\<open>timeout\<close> when the caller's keyword arguments have no
  such key, and the request goes out through the authorised session.
\<close>

definition make_composer2_web_server_request ::
  "session \<Rightarrow> string \<Rightarrow> string \<Rightarrow> (string \<times> pyval) list \<Rightarrow> (exn + response) \<times> call list"
where
  "make_composer2_web_server_request authed_session request_url method kwargs =
     (let kwargs' = (if ''timeout'' \<notin> set (map fst kwargs)
                     then kwargs @ [(''timeout'', PInt 90)] else kwargs);
          c = \<lparr>call_method = method, call_url = request_url, call_kwargs = kwargs'\<rparr>
      in (authed_session c, [c]))"

text \<open>
  \<^verbatim>\<open>trigger_dag(web_server_url, dag_id, data)\<close>, lines 41 to 69. The branch of line 67 ends
  without a \<^verbatim>\<open>return\<close>: when \<^verbatim>\<open>raise_for_status\<close> comes back, the function returns
  \<^verbatim>\<open>None\<close>.
\<close>

definition permission_message :: string where
  "permission_message =
     ''You do not have a permission to perform this operation. '' @
     ''Check Airflow RBAC roles for your account.''"

definition trigger_dag ::
  "session \<Rightarrow> string \<Rightarrow> string \<Rightarrow> pyval \<Rightarrow> (exn + pyval) \<times> call list"
where
  "trigger_dag authed_session web_server_url dag_id data =
     (let endpoint = ''api/v1/dags/'' @ dag_id @ ''/dagRuns'';
          request_url = web_server_url @ ''/'' @ endpoint;
          json_data = PDict [(''conf'', data)];
          (result, calls) =
             make_composer2_web_server_request authed_session request_url ''POST''
               [(''json'', json_data)]
      in case result of
           Inl e \<Rightarrow> (Inl e, calls)
         | Inr response \<Rightarrow>
             if status_code response = 403 then
               (Inl (HTTPError (permission_message @ headers response @ '' / ''
                                @ resp_text response)), calls)
             else if status_code response \<noteq> 200 then
               (case raise_for_status response of
                  Inl e \<Rightarrow> (Inl e, calls)
                | Inr u \<Rightarrow> (Inr PNone, calls))
             else (Inr (PStr (resp_text response)), calls))"

section \<open>The inbound side: the Flask request and the handler\<close>

text \<open>
  What the body of the inbound request is to a JSON reader: no body, a body that is not
  JSON (or not declared as JSON), or a body that parses to a value.
\<close>

datatype body = NoBody | Malformed string | Parsed pyval

record request =
  req_method :: string
  req_body :: body
  args :: "(string \<times> string) list"

text \<open>
  Flask's \<^verbatim>\<open>request.get_json(silent)\<close>: the parsed value; when there is nothing to parse or
  parsing fails, \<^verbatim>\<open>None\<close> if \<^verbatim>\<open>silent\<close>, and otherwise a \<^verbatim>\<open>BadRequest\<close> with the
  text Flask gives it outside debug mode. \<^verbatim>\<open>main.py\<close> calls it with \<^verbatim>\<open>silent=True\<close>
  only (line 88).
\<close>

definition bad_request_text :: string where
  "bad_request_text =
     ''400 Bad Request: The browser (or proxy) sent a request that this server '' @
     ''could not understand.''"

definition get_json :: "bool \<Rightarrow> request \<Rightarrow> exn + pyval" where
  "get_json silent req =
     (case req_body req of
        Parsed v \<Rightarrow> Inr v
      | NoBody \<Rightarrow> if silent then Inr PNone else Inl (BadRequest bad_request_text)
      | Malformed s \<Rightarrow> if silent then Inr PNone else Inl (BadRequest bad_request_text))"

text \<open>\<^verbatim>\<open>request.args.get(key, default)\<close>: the first value of the key in the query string.\<close>

definition args_get :: "(string \<times> string) list \<Rightarrow> string \<Rightarrow> string \<Rightarrow> pyval" where
  "args_get qs k d = PStr (case map_of qs k of None \<Rightarrow> d | Some v \<Rightarrow> v)"

text \<open>
  Lines 87 to 100 of \<^verbatim>\<open>trigger_dag_gcf\<close>: the two parameters \<^verbatim>\<open>bucket\<close> and
  \<^verbatim>\<open>file_path\<close>, or the exception raised on the way.
\<close>

definition extract_params :: "request \<Rightarrow> exn + (pyval \<times> pyval)" where
  "extract_params req =
     (if req_method req = ''POST'' then
        (case get_json True req of
           Inl e \<Rightarrow> Inl e
         | Inr request_json \<Rightarrow>
             if truthy request_json then
               (case py_get request_json ''bucket'' (PStr ''YOUR-BUCKET-NAME'') of
                  Inl e \<Rightarrow> Inl e
                | Inr bucket \<Rightarrow>
                    (case py_get request_json ''file'' (PStr ''INPUT-PATH-TO-FILE'') of
                       Inl e \<Rightarrow> Inl e
                     | Inr file_path \<Rightarrow> Inr (bucket, file_path)))
             else Inr (PStr ''YOUR-BUCKET-NAME'', PStr ''INPUT-PATH-TO-FILE''))
      else
        Inr (args_get (args req) ''bucket'' ''YOUR-BUCKET-NAME'',
             args_get (args req) ''file'' ''INPUT-PATH-TO-FILE''))"

definition web_server_url :: string where
  "web_server_url = ''YOUR-WEB-SERVER-URL''"

definition dag_id :: string where
  "dag_id = ''gcs_dataflow_bigquery_official''"

definition dag_conf :: "pyval \<Rightarrow> pyval \<Rightarrow> pyval" where
  "dag_conf bucket file_path = PDict [(''bucket'', bucket), (''file'', file_path)]"

text \<open>
  The body of the \<^verbatim>\<open>try\<close> statement, lines 86 to 124: the dict it returns, or the
  exception that leaves it.
\<close>

definition handler_body :: "session \<Rightarrow> request \<Rightarrow> (exn + pyval) \<times> call list" where
  "handler_body authed_session req =
     (case extract_params req of
        Inl e \<Rightarrow> (Inl e, [])
      | Inr (bucket, file_path) \<Rightarrow>
          (let (result, calls) =
                 trigger_dag authed_session web_server_url dag_id (dag_conf bucket file_path)
           in case result of
                Inl e \<Rightarrow> (Inl e, calls)
              | Inr response_text \<Rightarrow>
                  (Inr (PDict [(''status'', PStr ''success''),
                               (''message'', PStr ''DAG triggered successfully''),
                               (''dag_id'', PStr dag_id),
                               (''dag_conf'', dag_conf bucket file_path),
                               (''response'', response_text)]), calls)))"

text \<open>
  What a Flask view returns: a body alone (the status is then 200), or a body paired with
  a status code.
\<close>

datatype flask_return = Body pyval | BodyStatus pyval int

text \<open>
  \<^verbatim>\<open>trigger_dag_gcf(request)\<close>, lines 73 to 130. The clause \<^verbatim>\<open>except Exception\<close> turns
  an exception of the body into the error pair when it is an instance of
  \<^verbatim>\<open>Exception\<close>; any other exception leaves the handler (\<open>Inl\<close>).
\<close>

definition trigger_dag_gcf ::
  "session \<Rightarrow> request \<Rightarrow> (exn + flask_return) \<times> call list"
where
  "trigger_dag_gcf authed_session req =
     (case handler_body authed_session req of
        (Inr d, calls) \<Rightarrow> (Inr (Body d), calls)
      | (Inl e, calls) \<Rightarrow>
          if is_Exception e then
            (Inr (BodyStatus
                    (PDict [(''status'', PStr ''error''),
                            (''message'', PStr (''Failed to trigger DAG: '' @ str_exn e))])
                    500), calls)
          else (Inl e, calls))"

section \<open>Notation for the statements\<close>

text \<open>
  The call that \<^verbatim>\<open>trigger_dag\<close> sends for a base URL, a DAG id and a configuration; the
  call the handler sends for a bucket and a file path (with the URL and the DAG id of
  lines 104 to 108); the handler returning the dict of lines 118 to 124; and the handler
  returning the pair of lines 127 to 130.
\<close>

abbreviation dag_run_call :: "string \<Rightarrow> string \<Rightarrow> pyval \<Rightarrow> call" where
  "dag_run_call base dag data \<equiv>
     \<lparr>call_method = ''POST'',
      call_url = base @ ''/api/v1/dags/'' @ dag @ ''/dagRuns'',
      call_kwargs = [(''json'', PDict [(''conf'', data)]), (''timeout'', PInt 90)]\<rparr>"

abbreviation handler_call :: "pyval \<Rightarrow> pyval \<Rightarrow> call" where
  "handler_call bucket file_path \<equiv>
     dag_run_call ''YOUR-WEB-SERVER-URL'' ''gcs_dataflow_bigquery_official''
       (PDict [(''bucket'', bucket), (''file'', file_path)])"

abbreviation success_return :: "pyval \<Rightarrow> pyval \<Rightarrow> pyval \<Rightarrow> exn + flask_return" where
  "success_return bucket file_path response_text \<equiv>
     Inr (Body (PDict [(''status'', PStr ''success''),
                       (''message'', PStr ''DAG triggered successfully''),
                       (''dag_id'', PStr ''gcs_dataflow_bigquery_official''),
                       (''dag_conf'', PDict [(''bucket'', bucket), (''file'', file_path)]),
                       (''response'', response_text)]))"

abbreviation error_return :: "string \<Rightarrow> exn + flask_return" where
  "error_return exception_text \<equiv>
     Inr (BodyStatus
            (PDict [(''status'', PStr ''error''),
                    (''message'', PStr (''Failed to trigger DAG: '' @ exception_text))]) 500)"

text \<open>
  The parameters that lines 87 to 100 read from a request, as a relation: the query
  parameters for a method other than POST; the values of a body that parses to an object
  that is not empty; the placeholders for a POST with no body, a body that does not
  parse, or a body that parses to a value Python takes as false. (A POST whose body parses
  to any other value gives no parameters: line 91 raises.)
\<close>

abbreviation request_params :: "request \<Rightarrow> pyval \<Rightarrow> pyval \<Rightarrow> bool" where
  "request_params req bucket file_path \<equiv>
     (req_method req \<noteq> ''POST'' \<and>
        bucket = PStr (case map_of (args req) ''bucket'' of
                         None \<Rightarrow> ''YOUR-BUCKET-NAME'' | Some v \<Rightarrow> v) \<and>
        file_path = PStr (case map_of (args req) ''file'' of
                            None \<Rightarrow> ''INPUT-PATH-TO-FILE'' | Some v \<Rightarrow> v)) \<or>
     (req_method req = ''POST'' \<and>
        (\<exists>kvs. req_body req = Parsed (PDict kvs) \<and> kvs \<noteq> [] \<and>
           bucket = (case map_of kvs ''bucket'' of
                       None \<Rightarrow> PStr ''YOUR-BUCKET-NAME'' | Some v \<Rightarrow> v) \<and>
           file_path = (case map_of kvs ''file'' of
                          None \<Rightarrow> PStr ''INPUT-PATH-TO-FILE'' | Some v \<Rightarrow> v))) \<or>
     (req_method req = ''POST'' \<and>
        (req_body req = NoBody \<or> (\<exists>s. req_body req = Malformed s) \<or>
         (\<exists>v. req_body req = Parsed v \<and> \<not> truthy v)) \<and>
        bucket = PStr ''YOUR-BUCKET-NAME'' \<and> file_path = PStr ''INPUT-PATH-TO-FILE'')"

section \<open>The run trigger and the handler, unfolded\<close>

text \<open>
  \<^verbatim>\<open>trigger_dag\<close> with the call of the request client written out: what it returns is
  decided by the answer of the session to its one call.
\<close>

lemma trigger_dag_unfold:
  "trigger_dag sess base dag data =
     (case sess (dag_run_call base dag data) of
        Inl e \<Rightarrow> (Inl e, [dag_run_call base dag data])
      | Inr r \<Rightarrow>
          if status_code r = 403 then
            (Inl (HTTPError (permission_message @ headers r @ '' / '' @ resp_text r)),
             [dag_run_call base dag data])
          else if status_code r \<noteq> 200 then
            (case raise_for_status r of
               Inl e \<Rightarrow> (Inl e, [dag_run_call base dag data])
             | Inr u \<Rightarrow> (Inr PNone, [dag_run_call base dag data]))
          else (Inr (PStr (resp_text r)), [dag_run_call base dag data]))"
  by (simp add: trigger_dag_def make_composer2_web_server_request_def Let_def
      split: sum.splits prod.splits)

text \<open>The handler, by what the extraction of the parameters gives.\<close>

lemma extract_params_raises:
  "extract_params req = Inl e \<Longrightarrow> is_Exception e"
  by (cases "req_body req"; cases "py_get (case req_body req of Parsed v \<Rightarrow> v) ''bucket''
        (PStr ''YOUR-BUCKET-NAME'')")
     (auto simp: extract_params_def get_json_def
        split: if_splits sum.splits body.splits elim: py_get.elims)

lemma handler_extract_raises:
  "extract_params req = Inl e \<Longrightarrow>
   trigger_dag_gcf sess req = (error_return (str_exn e), [])"
  by (frule extract_params_raises) (simp add: trigger_dag_gcf_def handler_body_def)

lemma handler_after_extract:
  "extract_params req = Inr (b, f) \<Longrightarrow>
   trigger_dag_gcf sess req =
     (case trigger_dag sess web_server_url dag_id (dag_conf b f) of
        (Inl e, calls) \<Rightarrow>
          (if is_Exception e then error_return (str_exn e) else Inl e, calls)
      | (Inr t, calls) \<Rightarrow> (success_return b f t, calls))"
  by (simp add: trigger_dag_gcf_def handler_body_def dag_id_def dag_conf_def
      split: sum.splits prod.splits)

lemma handler_calls:
  "snd (trigger_dag_gcf sess req) =
     (case extract_params req of Inl e \<Rightarrow> [] | Inr (b, f) \<Rightarrow> [handler_call b f])"
proof (cases "extract_params req")
  case (Inl e)
  then show ?thesis by (simp add: handler_extract_raises)
next
  case (Inr p)
  obtain b f where p: "p = (b, f)" by (cases p)
  with Inr have ex: "extract_params req = Inr (b, f)" by simp
  show ?thesis
    unfolding handler_after_extract [OF ex] trigger_dag_unfold
    by (simp add: ex web_server_url_def dag_id_def dag_conf_def split: sum.splits)
qed

lemma raise_for_status_raises:
  "raise_for_status r = Inl e \<Longrightarrow> is_Exception e"
  by (auto simp: raise_for_status_def split: if_splits)

lemma handler_on_response:
  assumes "extract_params req = Inr (b, f)"
    and "sess (handler_call b f) = Inr r"
  shows "trigger_dag_gcf sess req =
     (if status_code r = 403 then
        (error_return (permission_message @ headers r @ '' / '' @ resp_text r),
         [handler_call b f])
      else if status_code r \<noteq> 200 then
        (case raise_for_status r of
           Inl e \<Rightarrow> (error_return (str_exn e), [handler_call b f])
         | Inr u \<Rightarrow> (success_return b f PNone, [handler_call b f]))
      else (success_return b f (PStr (resp_text r)), [handler_call b f]))"
  unfolding handler_after_extract [OF assms(1)] trigger_dag_unfold
  using assms(2)
  by (auto simp: web_server_url_def dag_id_def dag_conf_def
      split: sum.splits dest: raise_for_status_raises)

lemma handler_on_session_raise:
  assumes "extract_params req = Inr (b, f)"
    and "sess (handler_call b f) = Inl e"
  shows "trigger_dag_gcf sess req =
     (if is_Exception e then error_return (str_exn e) else Inl e, [handler_call b f])"
  unfolding handler_after_extract [OF assms(1)] trigger_dag_unfold
  using assms(2)
  by (simp add: web_server_url_def dag_id_def dag_conf_def)

text \<open>
  The relation of the notation is the graph of \<^verbatim>\<open>extract_params\<close> where it returns.
\<close>

lemma request_params_extract:
  "request_params req b f \<Longrightarrow> extract_params req = Inr (b, f)"
  by (auto simp: extract_params_def get_json_def args_get_def)

lemma extract_request_params:
  "extract_params req = Inr (b, f) \<Longrightarrow> request_params req b f"
proof (cases "req_method req = ''POST''")
  case False
  assume "extract_params req = Inr (b, f)"
  with False show ?thesis by (auto simp: extract_params_def args_get_def)
next
  case True
  assume ex: "extract_params req = Inr (b, f)"
  show ?thesis
  proof (cases "req_body req")
    case NoBody
    with True ex show ?thesis by (auto simp: extract_params_def get_json_def)
  next
    case (Malformed s)
    with True ex show ?thesis by (auto simp: extract_params_def get_json_def)
  next
    case (Parsed v)
    with True ex show ?thesis
      by (cases v) (auto simp: extract_params_def get_json_def split: if_splits)
  qed
qed

section \<open>The request client and the run trigger\<close>

text \<open>
  Claim C6. For every base URL, DAG id and configuration, \<^verbatim>\<open>trigger_dag\<close> issues exactly
  one call, whatever the session answers: a POST to the base URL, a slash and the path
  \<^verbatim>\<open>api/v1/dags/{dag_id}/dagRuns\<close>, whose JSON body is the configuration under the single
  key \<^verbatim>\<open>conf\<close> (the request client adds its default timeout).
\<close>

theorem trigger_dag_issues_one_post:
  "snd (trigger_dag sess base dag data) =
     [\<lparr>call_method = ''POST'',
       call_url = base @ ''/'' @ ''api/v1/dags/'' @ dag @ ''/dagRuns'',
       call_kwargs = [(''json'', PDict [(''conf'', data)]), (''timeout'', PInt 90)]\<rparr>]"
  by (simp add: trigger_dag_unfold split: sum.splits)

text \<open>The call sent for the DAG \<^verbatim>\<open>etl\<close> when the session times out.\<close>

theorem trigger_dag_issues_one_post_witness:
  "snd (trigger_dag (\<lambda>c. Inl (OtherException ''Timeout'' ''timed out''))
         ''https://airflow.example'' ''etl'' (PDict [(''bucket'', PStr ''b1'')])) =
     [\<lparr>call_method = ''POST'',
       call_url = ''https://airflow.example/api/v1/dags/etl/dagRuns'',
       call_kwargs = [(''json'', PDict [(''conf'', PDict [(''bucket'', PStr ''b1'')])]),
                      (''timeout'', PInt 90)]\<rparr>]"
  using trigger_dag_issues_one_post
    [of "\<lambda>c. Inl (OtherException ''Timeout'' ''timed out'')"
        "''https://airflow.example''" "''etl''" "PDict [(''bucket'', PStr ''b1'')]"]
  by simp

text \<open>
  Claim C8. When the keyword arguments of a call to the request client have no key
  \<^verbatim>\<open>timeout\<close>, the request goes out with the caller's arguments and \<^verbatim>\<open>timeout\<close> 90; when
  they have the key, the request goes out with the caller's arguments unchanged.
\<close>

theorem default_timeout_90:
  "(''timeout'' \<notin> set (map fst kwargs) \<longrightarrow>
      make_composer2_web_server_request sess u m kwargs =
        (sess \<lparr>call_method = m, call_url = u,
               call_kwargs = kwargs @ [(''timeout'', PInt 90)]\<rparr>,
         [\<lparr>call_method = m, call_url = u,
           call_kwargs = kwargs @ [(''timeout'', PInt 90)]\<rparr>]) \<and>
      map_of (kwargs @ [(''timeout'', PInt 90)]) ''timeout'' = Some (PInt 90)) \<and>
   (''timeout'' \<in> set (map fst kwargs) \<longrightarrow>
      make_composer2_web_server_request sess u m kwargs =
        (sess \<lparr>call_method = m, call_url = u, call_kwargs = kwargs\<rparr>,
         [\<lparr>call_method = m, call_url = u, call_kwargs = kwargs\<rparr>]))"
  by (auto simp: make_composer2_web_server_request_def Let_def map_of_eq_None_iff
      map_add_Some_iff)


text \<open>A call without a timeout, and a call with the timeout \<^verbatim>\<open>None\<close>.\<close>

theorem default_timeout_90_witness:
  "make_composer2_web_server_request (\<lambda>c. Inl (OtherException ''Timeout'' ''timed out''))
     ''https://airflow.example/health'' ''GET'' [] =
     (Inl (OtherException ''Timeout'' ''timed out''),
      [\<lparr>call_method = ''GET'', call_url = ''https://airflow.example/health'',
        call_kwargs = [(''timeout'', PInt 90)]\<rparr>]) \<and>
   make_composer2_web_server_request (\<lambda>c. Inl (OtherException ''Timeout'' ''timed out''))
     ''https://airflow.example/health'' ''GET'' [(''timeout'', PNone)] =
     (Inl (OtherException ''Timeout'' ''timed out''),
      [\<lparr>call_method = ''GET'', call_url = ''https://airflow.example/health'',
        call_kwargs = [(''timeout'', PNone)]\<rparr>])"
  using
    default_timeout_90 [of "[]" "\<lambda>c. Inl (OtherException ''Timeout'' ''timed out'')"
      "''https://airflow.example/health''" "''GET''"]
    default_timeout_90 [of "[(''timeout'', PNone)]"
      "\<lambda>c. Inl (OtherException ''Timeout'' ''timed out'')"
      "''https://airflow.example/health''" "''GET''"]
  by simp

section \<open>The parameters of the inbound request\<close>

lemma extract_params_post_dict:
  "req_method req = ''POST'' \<Longrightarrow> req_body req = Parsed (PDict kvs) \<Longrightarrow> kvs \<noteq> [] \<Longrightarrow>
   extract_params req =
     Inr (case map_of kvs ''bucket'' of None \<Rightarrow> PStr ''YOUR-BUCKET-NAME'' | Some v \<Rightarrow> v,
          case map_of kvs ''file'' of None \<Rightarrow> PStr ''INPUT-PATH-TO-FILE'' | Some v \<Rightarrow> v)"
  by (simp add: extract_params_def get_json_def)

lemma extract_params_not_post:
  "req_method req \<noteq> ''POST'' \<Longrightarrow>
   extract_params req =
     Inr (PStr (case map_of (args req) ''bucket'' of None \<Rightarrow> ''YOUR-BUCKET-NAME'' | Some v \<Rightarrow> v),
          PStr (case map_of (args req) ''file'' of None \<Rightarrow> ''INPUT-PATH-TO-FILE'' | Some v \<Rightarrow> v))"
  by (simp add: extract_params_def args_get_def)

text \<open>
  Claim C2 as it is written covers every POST body that is valid JSON and not empty. The
  array \<^verbatim>\<open>[1]\<close> is such a body and not an object: the
  call of \<^verbatim>\<open>get\<close> on the list raises \<^verbatim>\<open>AttributeError\<close>, no configuration reaches
  \<^verbatim>\<open>trigger_dag\<close>, no call goes out, and the handler answers with the error and 500.
\<close>

theorem post_list_body_counterexample:
  "trigger_dag_gcf (\<lambda>c. Inl (OtherException ''Timeout'' ''timed out''))
     \<lparr>req_method = ''POST'', req_body = Parsed (PList [PInt 1]), args = []\<rparr> =
     (error_return (CHR 0x27 # ''list'' @ CHR 0x27 # '' object has no attribute ''
                    @ CHR 0x27 # ''get'' @ [CHR 0x27]), [])"
  by (simp add: trigger_dag_gcf_def handler_body_def extract_params_def get_json_def
      quoted_def)

text \<open>
  Claim C2, amended. For every POST request whose body parses to a JSON object that is not
  empty, and for every request that is not a POST, the handler calls \<^verbatim>\<open>trigger_dag\<close> with
  the configuration \<^verbatim>\<open>{"bucket": b, "file": f}\<close> (what the handler returns or lets
  through is decided by that call) and that is the configuration sent out:
  for the POST, b and f are the values of the body under \<^verbatim>\<open>bucket\<close> and \<^verbatim>\<open>file\<close>; for
  the other methods, the query parameters \<^verbatim>\<open>bucket\<close> and \<^verbatim>\<open>file\<close>; each with its
  placeholder when the key is absent.
\<close>

theorem payload_from_request:
  "(req_method req = ''POST'' \<and> req_body req = Parsed (PDict kvs) \<and> kvs \<noteq> [] \<and>
    b = (case map_of kvs ''bucket'' of None \<Rightarrow> PStr ''YOUR-BUCKET-NAME'' | Some v \<Rightarrow> v) \<and>
    f = (case map_of kvs ''file'' of None \<Rightarrow> PStr ''INPUT-PATH-TO-FILE'' | Some v \<Rightarrow> v)
    \<or>
    req_method req \<noteq> ''POST'' \<and>
    b = PStr (case map_of (args req) ''bucket'' of
                None \<Rightarrow> ''YOUR-BUCKET-NAME'' | Some v \<Rightarrow> v) \<and>
    f = PStr (case map_of (args req) ''file'' of
                None \<Rightarrow> ''INPUT-PATH-TO-FILE'' | Some v \<Rightarrow> v))
   \<Longrightarrow>
   trigger_dag_gcf sess req =
     (case trigger_dag sess ''YOUR-WEB-SERVER-URL'' ''gcs_dataflow_bigquery_official''
             (PDict [(''bucket'', b), (''file'', f)]) of
        (Inl e, calls) \<Rightarrow>
          (if is_Exception e then error_return (str_exn e) else Inl e, calls)
      | (Inr response_text, calls) \<Rightarrow> (success_return b f response_text, calls)) \<and>
   snd (trigger_dag_gcf sess req) = [handler_call b f]"
proof -
  assume a: "req_method req = ''POST'' \<and> req_body req = Parsed (PDict kvs) \<and> kvs \<noteq> [] \<and>
    b = (case map_of kvs ''bucket'' of None \<Rightarrow> PStr ''YOUR-BUCKET-NAME'' | Some v \<Rightarrow> v) \<and>
    f = (case map_of kvs ''file'' of None \<Rightarrow> PStr ''INPUT-PATH-TO-FILE'' | Some v \<Rightarrow> v)
    \<or>
    req_method req \<noteq> ''POST'' \<and>
    b = PStr (case map_of (args req) ''bucket'' of
                None \<Rightarrow> ''YOUR-BUCKET-NAME'' | Some v \<Rightarrow> v) \<and>
    f = PStr (case map_of (args req) ''file'' of
                None \<Rightarrow> ''INPUT-PATH-TO-FILE'' | Some v \<Rightarrow> v)"
  then have ex: "extract_params req = Inr (b, f)"
    by (auto simp: extract_params_post_dict extract_params_not_post)
  have "snd (trigger_dag_gcf sess req) = [handler_call b f]"
    by (simp add: handler_calls ex)
  moreover have "trigger_dag_gcf sess req =
     (case trigger_dag sess ''YOUR-WEB-SERVER-URL'' ''gcs_dataflow_bigquery_official''
             (PDict [(''bucket'', b), (''file'', f)]) of
        (Inl e, calls) \<Rightarrow>
          (if is_Exception e then error_return (str_exn e) else Inl e, calls)
      | (Inr response_text, calls) \<Rightarrow> (success_return b f response_text, calls))"
    using handler_after_extract [OF ex, of sess]
    by (simp add: web_server_url_def dag_id_def dag_conf_def)
  ultimately show ?thesis by simp
qed

text \<open>
  A POST whose body has a bucket and no file (its query string is not read), and a GET
  whose query string has a file and no bucket (its body is not read).
\<close>

theorem payload_from_request_witness:
  "snd (trigger_dag_gcf (\<lambda>c. Inl (OtherException ''Timeout'' ''timed out''))
         \<lparr>req_method = ''POST'', req_body = Parsed (PDict [(''bucket'', PStr ''b1'')]),
          args = [(''file'', ''ignored.csv'')]\<rparr>) =
     [handler_call (PStr ''b1'') (PStr ''INPUT-PATH-TO-FILE'')] \<and>
   snd (trigger_dag_gcf (\<lambda>c. Inl (OtherException ''Timeout'' ''timed out''))
         \<lparr>req_method = ''GET'', req_body = Parsed (PDict [(''bucket'', PStr ''b1'')]),
          args = [(''file'', ''f1.csv'')]\<rparr>) =
     [handler_call (PStr ''YOUR-BUCKET-NAME'') (PStr ''f1.csv'')]"
proof -
  have post: "snd (trigger_dag_gcf (\<lambda>c. Inl (OtherException ''Timeout'' ''timed out''))
         \<lparr>req_method = ''POST'', req_body = Parsed (PDict [(''bucket'', PStr ''b1'')]),
          args = [(''file'', ''ignored.csv'')]\<rparr>) =
     [handler_call (PStr ''b1'') (PStr ''INPUT-PATH-TO-FILE'')]"
    by (rule conjunct2 [OF payload_from_request [where kvs = "[(''bucket'', PStr ''b1'')]"]])
       simp
  have get: "snd (trigger_dag_gcf (\<lambda>c. Inl (OtherException ''Timeout'' ''timed out''))
         \<lparr>req_method = ''GET'', req_body = Parsed (PDict [(''bucket'', PStr ''b1'')]),
          args = [(''file'', ''f1.csv'')]\<rparr>) =
     [handler_call (PStr ''YOUR-BUCKET-NAME'') (PStr ''f1.csv'')]"
    by (rule conjunct2 [OF payload_from_request [where kvs = "[]"]]) simp
  from post get show ?thesis by (rule conjI)
qed


section \<open>The classification of the response\<close>

text \<open>
  Claim C3. When the session answers the call with a response of status 200,
  \<^verbatim>\<open>trigger_dag\<close> returns the text of the response unchanged; and for every request that
  gives the parameters b and f, when the session answers the handler's call for b and f
  so, the handler sends that one call and returns, with no status code of its own, the
  dict with \<^verbatim>\<open>status\<close> \<^verbatim>\<open>success\<close>, the message, \<^verbatim>\<open>dag_id\<close>, \<^verbatim>\<open>dag_conf\<close>
  (b and f) and \<^verbatim>\<open>response\<close> equal to that text.
\<close>

theorem status_200_echoes_body:
  "(sess (dag_run_call base dag data) = Inr r \<and> status_code r = 200 \<longrightarrow>
      trigger_dag sess base dag data =
        (Inr (PStr (resp_text r)), [dag_run_call base dag data])) \<and>
   (request_params req bucket file_path \<and>
    sess' (handler_call bucket file_path) = Inr r' \<and> status_code r' = 200 \<longrightarrow>
      trigger_dag_gcf sess' req =
        (success_return bucket file_path (PStr (resp_text r')),
         [handler_call bucket file_path]))"
proof (intro conjI impI)
  assume "sess (dag_run_call base dag data) = Inr r \<and> status_code r = 200"
  then show "trigger_dag sess base dag data =
        (Inr (PStr (resp_text r)), [dag_run_call base dag data])"
    by (simp add: trigger_dag_unfold)
next
  assume a: "request_params req bucket file_path \<and>
    sess' (handler_call bucket file_path) = Inr r' \<and> status_code r' = 200"
  then have ex: "extract_params req = Inr (bucket, file_path)"
    by (blast intro: request_params_extract)
  from a have s: "sess' (handler_call bucket file_path) = Inr r'" by simp
  from handler_on_response [where sess = sess', OF ex s] a
  show "trigger_dag_gcf sess' req =
        (success_return bucket file_path (PStr (resp_text r')),
         [handler_call bucket file_path])"
    by simp
qed

text \<open>
  A server that answers 200 with the text \<^verbatim>\<open>queued\<close>, and a GET request with a bucket
  in its query string.
\<close>

theorem status_200_echoes_body_witness:
  "trigger_dag
     (\<lambda>c. Inr \<lparr>status_code = 200, reason = ''OK'', url = call_url c,
                headers = ''{}'', resp_text = ''queued''\<rparr>)
     ''https://airflow.example'' ''etl'' (PDict []) =
     (Inr (PStr ''queued''),
      [dag_run_call ''https://airflow.example'' ''etl'' (PDict [])]) \<and>
   trigger_dag_gcf
     (\<lambda>c. Inr \<lparr>status_code = 200, reason = ''OK'', url = call_url c,
                headers = ''{}'', resp_text = ''queued''\<rparr>)
     \<lparr>req_method = ''GET'', req_body = NoBody, args = [(''bucket'', ''b1'')]\<rparr> =
     (success_return (PStr ''b1'') (PStr ''INPUT-PATH-TO-FILE'') (PStr ''queued''),
      [handler_call (PStr ''b1'') (PStr ''INPUT-PATH-TO-FILE'')])"
proof -
  let ?sess = "\<lambda>c. Inr \<lparr>status_code = 200, reason = ''OK'', url = call_url c,
                headers = ''{}'', resp_text = ''queued''\<rparr>"
  let ?req = "\<lparr>req_method = ''GET'', req_body = NoBody, args = [(''bucket'', ''b1'')]\<rparr>"
  note inst = status_200_echoes_body
    [of ?sess "''https://airflow.example''" "''etl''" "PDict []"
        "\<lparr>status_code = 200, reason = ''OK'',
          url = ''https://airflow.example/api/v1/dags/etl/dagRuns'',
          headers = ''{}'', resp_text = ''queued''\<rparr>"
        ?req "PStr ''b1''" "PStr ''INPUT-PATH-TO-FILE''" ?sess
        "\<lparr>status_code = 200, reason = ''OK'',
          url = ''YOUR-WEB-SERVER-URL/api/v1/dags/gcs_dataflow_bigquery_official/dagRuns'',
          headers = ''{}'', resp_text = ''queued''\<rparr>"]
  from inst have "trigger_dag ?sess ''https://airflow.example'' ''etl'' (PDict []) =
     (Inr (PStr ''queued''), [dag_run_call ''https://airflow.example'' ''etl'' (PDict [])])"
    by simp
  moreover from inst
  have "trigger_dag_gcf ?sess ?req =
     (success_return (PStr ''b1'') (PStr ''INPUT-PATH-TO-FILE'') (PStr ''queued''),
      [handler_call (PStr ''b1'') (PStr ''INPUT-PATH-TO-FILE'')])"
    by simp
  ultimately show ?thesis by (rule conjI)
qed

text \<open>
  Claim C4. When the session answers the call with a response of status 403,
  \<^verbatim>\<open>trigger_dag\<close> raises an \<^verbatim>\<open>HTTPError\<close> whose message is the fixed text about
  permissions, then the headers, \<^verbatim>\<open> / \<close> and the text of the response; and for every request
  that gives the parameters b and f, when the session answers the handler's call for b
  and f so, the handler sends that one call and returns the error dict with status code
  500, whose message is that text after \<^verbatim>\<open>Failed to trigger DAG: \<close> and contains
  \<^verbatim>\<open>permission\<close>.
\<close>

theorem status_403_permission_error:
  "(sess (dag_run_call base dag data) = Inr r \<and> status_code r = 403 \<longrightarrow>
      trigger_dag sess base dag data =
        (Inl (HTTPError
           (''You do not have a permission to perform this operation. '' @
            ''Check Airflow RBAC roles for your account.'' @
            headers r @ '' / '' @ resp_text r)),
         [dag_run_call base dag data])) \<and>
   (request_params req bucket file_path \<and>
    sess' (handler_call bucket file_path) = Inr r' \<and> status_code r' = 403 \<longrightarrow>
      (\<exists>msg.
         trigger_dag_gcf sess' req =
           (Inr (BodyStatus (PDict [(''status'', PStr ''error''), (''message'', PStr msg)])
                   500),
            [handler_call bucket file_path]) \<and>
         msg = ''Failed to trigger DAG: '' @
               ''You do not have a permission to perform this operation. '' @
               ''Check Airflow RBAC roles for your account.'' @
               headers r' @ '' / '' @ resp_text r' \<and>
         sublist ''permission'' msg))"
proof (intro conjI impI)
  assume "sess (dag_run_call base dag data) = Inr r \<and> status_code r = 403"
  then show "trigger_dag sess base dag data =
        (Inl (HTTPError
           (''You do not have a permission to perform this operation. '' @
            ''Check Airflow RBAC roles for your account.'' @
            headers r @ '' / '' @ resp_text r)),
         [dag_run_call base dag data])"
    by (simp add: trigger_dag_unfold permission_message_def)
next
  assume a: "request_params req bucket file_path \<and>
    sess' (handler_call bucket file_path) = Inr r' \<and> status_code r' = 403"
  let ?msg = "''Failed to trigger DAG: '' @
               ''You do not have a permission to perform this operation. '' @
               ''Check Airflow RBAC roles for your account.'' @
               headers r' @ '' / '' @ resp_text r'"
  from a have ex: "extract_params req = Inr (bucket, file_path)"
    by (blast intro: request_params_extract)
  from a have s: "sess' (handler_call bucket file_path) = Inr r'" by simp
  from handler_on_response [where sess = sess', OF ex s] a
  have ret: "trigger_dag_gcf sess' req =
      (Inr (BodyStatus (PDict [(''status'', PStr ''error''), (''message'', PStr ?msg)]) 500),
       [handler_call bucket file_path])"
    by (simp add: permission_message_def)
  have "?msg = ''Failed to trigger DAG: You do not have a '' @ ''permission'' @
      ('' to perform this operation. Check Airflow RBAC roles for your account.'' @
       headers r' @ '' / '' @ resp_text r')"
    by simp
  then have "sublist ''permission'' ?msg"
    unfolding sublist_def by blast
  with ret show "\<exists>msg.
         trigger_dag_gcf sess' req =
           (Inr (BodyStatus (PDict [(''status'', PStr ''error''), (''message'', PStr msg)])
                   500),
            [handler_call bucket file_path]) \<and>
         msg = ?msg \<and> sublist ''permission'' msg"
    by blast
qed

text \<open>
  A server that answers 403 with the text \<^verbatim>\<open>denied\<close>, and a GET request with a bucket
  in its query string.
\<close>

theorem status_403_permission_error_witness:
  "trigger_dag
     (\<lambda>c. Inr \<lparr>status_code = 403, reason = ''Forbidden'', url = call_url c,
                headers = ''{}'', resp_text = ''denied''\<rparr>)
     ''https://airflow.example'' ''etl'' (PDict []) =
     (Inl (HTTPError
        (''You do not have a permission to perform this operation. '' @
         ''Check Airflow RBAC roles for your account.{} / denied'')),
      [dag_run_call ''https://airflow.example'' ''etl'' (PDict [])]) \<and>
   trigger_dag_gcf
     (\<lambda>c. Inr \<lparr>status_code = 403, reason = ''Forbidden'', url = call_url c,
                headers = ''{}'', resp_text = ''denied''\<rparr>)
     \<lparr>req_method = ''GET'', req_body = NoBody, args = [(''bucket'', ''b1'')]\<rparr> =
     (error_return (''You do not have a permission to perform this operation. '' @
                    ''Check Airflow RBAC roles for your account.{} / denied''),
      [handler_call (PStr ''b1'') (PStr ''INPUT-PATH-TO-FILE'')])"
proof -
  let ?sess = "\<lambda>c. Inr \<lparr>status_code = 403, reason = ''Forbidden'', url = call_url c,
                headers = ''{}'', resp_text = ''denied''\<rparr>"
  let ?req = "\<lparr>req_method = ''GET'', req_body = NoBody, args = [(''bucket'', ''b1'')]\<rparr>"
  note inst = status_403_permission_error
    [of ?sess "''https://airflow.example''" "''etl''" "PDict []"
        "\<lparr>status_code = 403, reason = ''Forbidden'',
          url = ''https://airflow.example/api/v1/dags/etl/dagRuns'',
          headers = ''{}'', resp_text = ''denied''\<rparr>"
        ?req "PStr ''b1''" "PStr ''INPUT-PATH-TO-FILE''" ?sess
        "\<lparr>status_code = 403, reason = ''Forbidden'',
          url = ''YOUR-WEB-SERVER-URL/api/v1/dags/gcs_dataflow_bigquery_official/dagRuns'',
          headers = ''{}'', resp_text = ''denied''\<rparr>"]
  from inst have "trigger_dag ?sess ''https://airflow.example'' ''etl'' (PDict []) =
     (Inl (HTTPError
        (''You do not have a permission to perform this operation. '' @
         ''Check Airflow RBAC roles for your account.{} / denied'')),
      [dag_run_call ''https://airflow.example'' ''etl'' (PDict [])])"
    by simp
  moreover from inst
  have "trigger_dag_gcf ?sess ?req =
     (error_return (''You do not have a permission to perform this operation. '' @
                    ''Check Airflow RBAC roles for your account.{} / denied''),
      [handler_call (PStr ''b1'') (PStr ''INPUT-PATH-TO-FILE'')])"
    by simp
  ultimately show ?thesis by (rule conjI)
qed

text \<open>
  Claim C10. When the session answers the call with a response whose status is from 200 to
  399 and not 200, \<^verbatim>\<open>trigger_dag\<close> raises nothing and returns \<^verbatim>\<open>None\<close>; and for every
  request that gives the parameters b and f, when the session answers the handler's call
  for b and f so, the handler sends that one call and returns the success dict with
  \<^verbatim>\<open>response\<close> equal to \<^verbatim>\<open>None\<close> (null in JSON).
\<close>

theorem other_2xx_3xx_returns_none:
  "(sess (dag_run_call base dag data) = Inr r \<and>
    200 \<le> status_code r \<and> status_code r < 400 \<and> status_code r \<noteq> 200 \<longrightarrow>
      trigger_dag sess base dag data = (Inr PNone, [dag_run_call base dag data])) \<and>
   (request_params req bucket file_path \<and>
    sess' (handler_call bucket file_path) = Inr r' \<and>
    200 \<le> status_code r' \<and> status_code r' < 400 \<and> status_code r' \<noteq> 200 \<longrightarrow>
      trigger_dag_gcf sess' req =
        (success_return bucket file_path PNone, [handler_call bucket file_path]))"
proof (intro conjI impI)
  assume "sess (dag_run_call base dag data) = Inr r \<and>
    200 \<le> status_code r \<and> status_code r < 400 \<and> status_code r \<noteq> 200"
  then show "trigger_dag sess base dag data = (Inr PNone, [dag_run_call base dag data])"
    by (simp add: trigger_dag_unfold raise_for_status_def)
next
  assume a: "request_params req bucket file_path \<and>
    sess' (handler_call bucket file_path) = Inr r' \<and>
    200 \<le> status_code r' \<and> status_code r' < 400 \<and> status_code r' \<noteq> 200"
  then have ex: "extract_params req = Inr (bucket, file_path)"
    by (blast intro: request_params_extract)
  from a have s: "sess' (handler_call bucket file_path) = Inr r'" by simp
  from handler_on_response [where sess = sess', OF ex s] a
  show "trigger_dag_gcf sess' req =
        (success_return bucket file_path PNone, [handler_call bucket file_path])"
    by (simp add: raise_for_status_def)
qed

text \<open>A server that answers 302, and a POST request whose body has a file.\<close>

theorem other_2xx_3xx_returns_none_witness:
  "trigger_dag
     (\<lambda>c. Inr \<lparr>status_code = 302, reason = ''Found'', url = call_url c,
                headers = ''{}'', resp_text = ''moved''\<rparr>)
     ''https://airflow.example'' ''etl'' (PDict []) =
     (Inr PNone, [dag_run_call ''https://airflow.example'' ''etl'' (PDict [])]) \<and>
   trigger_dag_gcf
     (\<lambda>c. Inr \<lparr>status_code = 302, reason = ''Found'', url = call_url c,
                headers = ''{}'', resp_text = ''moved''\<rparr>)
     \<lparr>req_method = ''POST'', req_body = Parsed (PDict [(''file'', PStr ''f1.csv'')]),
      args = []\<rparr> =
     (success_return (PStr ''YOUR-BUCKET-NAME'') (PStr ''f1.csv'') PNone,
      [handler_call (PStr ''YOUR-BUCKET-NAME'') (PStr ''f1.csv'')])"
proof -
  let ?sess = "\<lambda>c. Inr \<lparr>status_code = 302, reason = ''Found'', url = call_url c,
                headers = ''{}'', resp_text = ''moved''\<rparr>"
  let ?req = "\<lparr>req_method = ''POST'', req_body = Parsed (PDict [(''file'', PStr ''f1.csv'')]),
      args = []\<rparr>"
  note inst = other_2xx_3xx_returns_none
    [of ?sess "''https://airflow.example''" "''etl''" "PDict []"
        "\<lparr>status_code = 302, reason = ''Found'',
          url = ''https://airflow.example/api/v1/dags/etl/dagRuns'',
          headers = ''{}'', resp_text = ''moved''\<rparr>"
        ?req "PStr ''YOUR-BUCKET-NAME''" "PStr ''f1.csv''" ?sess
        "\<lparr>status_code = 302, reason = ''Found'',
          url = ''YOUR-WEB-SERVER-URL/api/v1/dags/gcs_dataflow_bigquery_official/dagRuns'',
          headers = ''{}'', resp_text = ''moved''\<rparr>"]
  from inst have "trigger_dag ?sess ''https://airflow.example'' ''etl'' (PDict []) =
     (Inr PNone, [dag_run_call ''https://airflow.example'' ''etl'' (PDict [])])"
    by simp
  moreover from inst
  have "trigger_dag_gcf ?sess ?req =
     (success_return (PStr ''YOUR-BUCKET-NAME'') (PStr ''f1.csv'') PNone,
      [handler_call (PStr ''YOUR-BUCKET-NAME'') (PStr ''f1.csv'')])"
    by simp
  ultimately show ?thesis by (rule conjI)
qed

section \<open>The handler's error branch\<close>

text \<open>
  Claim C5 as it is written has the handler catch every exception and never let one
  through. The clause of line 126 is \<^verbatim>\<open>except Exception\<close>: a \<^verbatim>\<open>KeyboardInterrupt\<close>
  raised while the outbound call blocks is not an \<^verbatim>\<open>Exception\<close>, and it leaves the
  handler.
\<close>

theorem keyboard_interrupt_counterexample:
  "trigger_dag_gcf (\<lambda>c. Inl (KeyboardInterrupt []))
     \<lparr>req_method = ''GET'', req_body = NoBody, args = []\<rparr> =
     (Inl (KeyboardInterrupt []),
      [handler_call (PStr ''YOUR-BUCKET-NAME'') (PStr ''INPUT-PATH-TO-FILE'')])"
  by (simp add: trigger_dag_gcf_def handler_body_def extract_params_def args_get_def
      trigger_dag_unfold web_server_url_def dag_id_def dag_conf_def)

text \<open>
  Claim C5, amended. Every exception that is an instance of \<^verbatim>\<open>Exception\<close> and leaves
  the body of the handler makes the handler return the dict with \<^verbatim>\<open>status\<close>
  \<^verbatim>\<open>error\<close> and the message \<^verbatim>\<open>Failed to trigger DAG: \<close> followed by the text of the
  exception, paired with 500:
  \<^item> the \<^verbatim>\<open>AttributeError\<close> of the parameter extraction, for a POST whose body parses to
    a value that is not false and not an object (then no call has gone out);
  \<^item> an exception that \<^verbatim>\<open>trigger_dag\<close> raises on the handler's configuration;
  \<^item> an exception that the session raises on the handler's call.
  An exception that the session raises and that is not an instance of \<^verbatim>\<open>Exception\<close>
  leaves the handler. Nothing else does: the handler returns, or lets through an exception
  of the session that is not an instance of \<^verbatim>\<open>Exception\<close>. (Building the configuration
  raises nothing.)
\<close>

theorem handler_catches_every_exception:
  "(req_method req = ''POST'' \<and> req_body req = Parsed v \<and> truthy v \<and>
    (\<forall>kvs. v \<noteq> PDict kvs) \<longrightarrow>
      trigger_dag_gcf sess req =
        (error_return (str_exn (AttributeError
           (quoted (type_name v) @ '' object has no attribute '' @ quoted ''get''))), [])) \<and>
   (request_params req b f \<and>
    fst (trigger_dag sess ''YOUR-WEB-SERVER-URL'' ''gcs_dataflow_bigquery_official''
           (PDict [(''bucket'', b), (''file'', f)])) = Inl e2 \<and> is_Exception e2 \<longrightarrow>
      trigger_dag_gcf sess req = (error_return (str_exn e2), [handler_call b f])) \<and>
   (request_params req b f \<and> sess (handler_call b f) = Inl e3 \<and> is_Exception e3 \<longrightarrow>
      trigger_dag_gcf sess req = (error_return (str_exn e3), [handler_call b f])) \<and>
   (request_params req b f \<and> sess (handler_call b f) = Inl e4 \<and> \<not> is_Exception e4 \<longrightarrow>
      trigger_dag_gcf sess req = (Inl e4, [handler_call b f])) \<and>
   ((\<exists>ret. fst (trigger_dag_gcf sess req) = Inr ret) \<or>
    (\<exists>e bucket file_path.
       fst (trigger_dag_gcf sess req) = Inl e \<and> \<not> is_Exception e \<and>
       request_params req bucket file_path \<and>
       sess (handler_call bucket file_path) = Inl e))"
proof (intro conjI impI)
  assume a: "req_method req = ''POST'' \<and> req_body req = Parsed v \<and> truthy v \<and>
    (\<forall>kvs. v \<noteq> PDict kvs)"
  then have "extract_params req =
      Inl (AttributeError
        (quoted (type_name v) @ '' object has no attribute '' @ quoted ''get''))"
    by (cases v) (simp_all add: extract_params_def get_json_def)
  then show "trigger_dag_gcf sess req =
        (error_return (str_exn (AttributeError
           (quoted (type_name v) @ '' object has no attribute '' @ quoted ''get''))), [])"
    by (rule handler_extract_raises)
next
  assume a: "request_params req b f \<and>
    fst (trigger_dag sess ''YOUR-WEB-SERVER-URL'' ''gcs_dataflow_bigquery_official''
           (PDict [(''bucket'', b), (''file'', f)])) = Inl e2 \<and> is_Exception e2"
  then have ex: "extract_params req = Inr (b, f)"
    by (blast intro: request_params_extract)
  have calls: "snd (trigger_dag sess ''YOUR-WEB-SERVER-URL''
      ''gcs_dataflow_bigquery_official'' (PDict [(''bucket'', b), (''file'', f)])) =
      [handler_call b f]"
    by (simp add: trigger_dag_unfold split: sum.splits)
  from a calls show "trigger_dag_gcf sess req = (error_return (str_exn e2), [handler_call b f])"
    unfolding handler_after_extract [OF ex]
    by (cases "trigger_dag sess ''YOUR-WEB-SERVER-URL''
          ''gcs_dataflow_bigquery_official'' (PDict [(''bucket'', b), (''file'', f)])")
       (simp add: web_server_url_def dag_id_def dag_conf_def)
next
  assume a: "request_params req b f \<and> sess (handler_call b f) = Inl e3 \<and> is_Exception e3"
  then have ex: "extract_params req = Inr (b, f)"
    by (blast intro: request_params_extract)
  from a have s: "sess (handler_call b f) = Inl e3" by simp
  from handler_on_session_raise [where sess = sess, OF ex s] a
  show "trigger_dag_gcf sess req = (error_return (str_exn e3), [handler_call b f])"
    by simp
next
  assume a: "request_params req b f \<and> sess (handler_call b f) = Inl e4 \<and> \<not> is_Exception e4"
  then have ex: "extract_params req = Inr (b, f)"
    by (blast intro: request_params_extract)
  from a have s: "sess (handler_call b f) = Inl e4" by simp
  from handler_on_session_raise [where sess = sess, OF ex s] a
  show "trigger_dag_gcf sess req = (Inl e4, [handler_call b f])"
    by simp
next
  show "(\<exists>ret. fst (trigger_dag_gcf sess req) = Inr ret) \<or>
    (\<exists>e bucket file_path.
       fst (trigger_dag_gcf sess req) = Inl e \<and> \<not> is_Exception e \<and>
       request_params req bucket file_path \<and>
       sess (handler_call bucket file_path) = Inl e)"
  proof (cases "extract_params req")
    case (Inl e)
    then show ?thesis by (simp add: handler_extract_raises)
  next
    case (Inr p)
    obtain b f where p: "p = (b, f)" by (cases p)
    with Inr have ex: "extract_params req = Inr (b, f)" by simp
    then have rp: "request_params req b f" by (rule extract_request_params)
    show ?thesis
    proof (cases "sess (handler_call b f)")
      case (Inl e)
      show ?thesis
      proof (cases "is_Exception e")
        case True
        with handler_on_session_raise [where sess = sess, OF ex Inl]
        show ?thesis by simp
      next
        case False
        with handler_on_session_raise [where sess = sess, OF ex Inl]
        have "fst (trigger_dag_gcf sess req) = Inl e" by simp
        with False rp Inl show ?thesis by blast
      qed
    next
      case (Inr r)
      from handler_on_response [where sess = sess, OF ex Inr]
      show ?thesis by (simp split: sum.splits)
    qed
  qed
qed

text \<open>
  A POST whose body is the JSON string \<^verbatim>\<open>"abc"\<close>; a server that answers 404; a
  session that times out; and a session that raises \<^verbatim>\<open>SystemExit\<close>.
\<close>

theorem handler_catches_every_exception_witness:
  "trigger_dag_gcf (\<lambda>c. Inl (OtherException ''Timeout'' ''timed out''))
     \<lparr>req_method = ''POST'', req_body = Parsed (PStr ''abc''), args = []\<rparr> =
     (error_return (CHR 0x27 # ''str'' @ CHR 0x27 # '' object has no attribute ''
                    @ CHR 0x27 # ''get'' @ [CHR 0x27]), []) \<and>
   trigger_dag_gcf
     (\<lambda>c. Inr \<lparr>status_code = 404, reason = ''Not Found'', url = call_url c,
                headers = ''{}'', resp_text = ''missing''\<rparr>)
     \<lparr>req_method = ''GET'', req_body = NoBody, args = []\<rparr> =
     (error_return (''404 Client Error: Not Found for url: '' @
        ''YOUR-WEB-SERVER-URL/api/v1/dags/gcs_dataflow_bigquery_official/dagRuns''),
      [handler_call (PStr ''YOUR-BUCKET-NAME'') (PStr ''INPUT-PATH-TO-FILE'')]) \<and>
   trigger_dag_gcf (\<lambda>c. Inl (OtherException ''Timeout'' ''timed out''))
     \<lparr>req_method = ''GET'', req_body = NoBody, args = []\<rparr> =
     (error_return ''timed out'',
      [handler_call (PStr ''YOUR-BUCKET-NAME'') (PStr ''INPUT-PATH-TO-FILE'')]) \<and>
   trigger_dag_gcf (\<lambda>c. Inl (SystemExit ''1''))
     \<lparr>req_method = ''GET'', req_body = NoBody, args = []\<rparr> =
     (Inl (SystemExit ''1''),
      [handler_call (PStr ''YOUR-BUCKET-NAME'') (PStr ''INPUT-PATH-TO-FILE'')])"
proof -
  let ?down = "\<lambda>c::call. (Inl (OtherException ''Timeout'' ''timed out'') :: exn + response)"
  let ?exit = "\<lambda>c::call. (Inl (SystemExit ''1'') :: exn + response)"
  let ?nf = "\<lambda>c. (Inr \<lparr>status_code = 404, reason = ''Not Found'', url = call_url c,
                headers = ''{}'', resp_text = ''missing''\<rparr> :: exn + response)"
  let ?post = "\<lparr>req_method = ''POST'', req_body = Parsed (PStr ''abc''), args = []\<rparr>"
  let ?get = "\<lparr>req_method = ''GET'', req_body = NoBody, args = []\<rparr>"
  let ?b = "PStr ''YOUR-BUCKET-NAME''" and ?f = "PStr ''INPUT-PATH-TO-FILE''"
  have nf: "fst (trigger_dag ?nf ''YOUR-WEB-SERVER-URL'' ''gcs_dataflow_bigquery_official''
           (PDict [(''bucket'', ?b), (''file'', ?f)])) =
      Inl (HTTPError (''404 Client Error: Not Found for url: '' @
       ''YOUR-WEB-SERVER-URL/api/v1/dags/gcs_dataflow_bigquery_official/dagRuns''))"
    by (simp add: trigger_dag_unfold raise_for_status_def str_int_def str_nat.simps)
  have "trigger_dag_gcf ?down ?post =
     (error_return (CHR 0x27 # ''str'' @ CHR 0x27 # '' object has no attribute ''
                    @ CHR 0x27 # ''get'' @ [CHR 0x27]), [])"
    using handler_catches_every_exception
      [where sess = ?down and req = ?post and v = "PStr ''abc''"]
    by (simp add: quoted_def)
  moreover have "trigger_dag_gcf ?nf ?get =
     (error_return (''404 Client Error: Not Found for url: '' @
        ''YOUR-WEB-SERVER-URL/api/v1/dags/gcs_dataflow_bigquery_official/dagRuns''),
      [handler_call ?b ?f])"
    using handler_catches_every_exception
      [where sess = ?nf and req = ?get and b = ?b and f = ?f and
        ?e2.0 = "HTTPError (''404 Client Error: Not Found for url: '' @
          ''YOUR-WEB-SERVER-URL/api/v1/dags/gcs_dataflow_bigquery_official/dagRuns'')"] nf
    by simp
  moreover have "trigger_dag_gcf ?down ?get = (error_return ''timed out'', [handler_call ?b ?f])"
    using handler_catches_every_exception
      [where sess = ?down and req = ?get and b = ?b and f = ?f and
        ?e3.0 = "OtherException ''Timeout'' ''timed out''"]
    by simp
  moreover have "trigger_dag_gcf ?exit ?get = (Inl (SystemExit ''1''), [handler_call ?b ?f])"
    using handler_catches_every_exception
      [where sess = ?exit and req = ?get and b = ?b and f = ?f and
        ?e4.0 = "SystemExit ''1''"]
    by simp
  ultimately show ?thesis by (intro conjI)
qed

section \<open>Bodies that give no parameters\<close>

text \<open>
  Claim C7. For a POST request whose body is not valid JSON, the silent \<^verbatim>\<open>get_json\<close>
  returns \<^verbatim>\<open>None\<close> and raises nothing, the parameters are the two placeholders, the
  configuration sent out holds them, and the handler does exactly what it does for the
  same request without a body.
\<close>

theorem malformed_post_body_uses_defaults:
  "req_method req = ''POST'' \<and> req_body req = Malformed s \<Longrightarrow>
   get_json True req = Inr PNone \<and>
   extract_params req = Inr (PStr ''YOUR-BUCKET-NAME'', PStr ''INPUT-PATH-TO-FILE'') \<and>
   snd (trigger_dag_gcf sess req) =
     [handler_call (PStr ''YOUR-BUCKET-NAME'') (PStr ''INPUT-PATH-TO-FILE'')] \<and>
   trigger_dag_gcf sess req = trigger_dag_gcf sess (req\<lparr>req_body := NoBody\<rparr>)"
proof -
  assume a: "req_method req = ''POST'' \<and> req_body req = Malformed s"
  then have g: "get_json True req = Inr PNone"
    by (simp add: get_json_def)
  from a have ex: "extract_params req =
      Inr (PStr ''YOUR-BUCKET-NAME'', PStr ''INPUT-PATH-TO-FILE'')"
    by (simp add: extract_params_def get_json_def)
  from a have ex': "extract_params (req\<lparr>req_body := NoBody\<rparr>) =
      Inr (PStr ''YOUR-BUCKET-NAME'', PStr ''INPUT-PATH-TO-FILE'')"
    by (simp add: extract_params_def get_json_def)
  have same: "trigger_dag_gcf sess req = trigger_dag_gcf sess (req\<lparr>req_body := NoBody\<rparr>)"
    by (simp only: handler_after_extract [OF ex] handler_after_extract [OF ex'])
  have calls: "snd (trigger_dag_gcf sess req) =
     [handler_call (PStr ''YOUR-BUCKET-NAME'') (PStr ''INPUT-PATH-TO-FILE'')]"
    by (simp add: handler_calls ex)
  from g ex calls same show ?thesis
    by (intro conjI)
qed

text \<open>A POST whose body is the text \<^verbatim>\<open>{bucket:\<close>.\<close>

theorem malformed_post_body_uses_defaults_witness:
  "extract_params \<lparr>req_method = ''POST'', req_body = Malformed ''{bucket:'', args = []\<rparr> =
     Inr (PStr ''YOUR-BUCKET-NAME'', PStr ''INPUT-PATH-TO-FILE'') \<and>
   snd (trigger_dag_gcf (\<lambda>c. Inl (OtherException ''Timeout'' ''timed out''))
          \<lparr>req_method = ''POST'', req_body = Malformed ''{bucket:'', args = []\<rparr>) =
     [handler_call (PStr ''YOUR-BUCKET-NAME'') (PStr ''INPUT-PATH-TO-FILE'')]"
proof -
  have hyp: "req_method \<lparr>req_method = ''POST'', req_body = Malformed ''{bucket:'', args = []\<rparr>
        = ''POST'' \<and>
      req_body \<lparr>req_method = ''POST'', req_body = Malformed ''{bucket:'', args = []\<rparr>
        = Malformed ''{bucket:''"
    by simp
  from malformed_post_body_uses_defaults
    [OF hyp, of "\<lambda>c. Inl (OtherException ''Timeout'' ''timed out'')"]
  show ?thesis by blast
qed

text \<open>The values that Python takes as false.\<close>

lemma falsy_values:
  "\<not> truthy v \<longleftrightarrow>
     v \<in> {PNone, PBool False, PInt 0, PFloat (Finite 0), PStr [], PList [], PDict []}"
  by (cases v) auto

text \<open>
  Claim C9. For a POST request whose body parses to a value that Python takes as false
  (the empty object, the empty array, the empty string, zero, \<^verbatim>\<open>false\<close>, \<^verbatim>\<open>null\<close>), the
  parameters are the two placeholders, the configuration sent out holds them, and the
  handler does exactly what it does for the same request without a body.
\<close>

theorem falsy_post_body_uses_defaults:
  "req_method req = ''POST'' \<and> req_body req = Parsed v \<and> \<not> truthy v \<Longrightarrow>
   extract_params req = Inr (PStr ''YOUR-BUCKET-NAME'', PStr ''INPUT-PATH-TO-FILE'') \<and>
   snd (trigger_dag_gcf sess req) =
     [handler_call (PStr ''YOUR-BUCKET-NAME'') (PStr ''INPUT-PATH-TO-FILE'')] \<and>
   trigger_dag_gcf sess req = trigger_dag_gcf sess (req\<lparr>req_body := NoBody\<rparr>)"
proof -
  assume a: "req_method req = ''POST'' \<and> req_body req = Parsed v \<and> \<not> truthy v"
  then have ex: "extract_params req =
      Inr (PStr ''YOUR-BUCKET-NAME'', PStr ''INPUT-PATH-TO-FILE'')"
    by (simp add: extract_params_def get_json_def)
  from a have ex': "extract_params (req\<lparr>req_body := NoBody\<rparr>) =
      Inr (PStr ''YOUR-BUCKET-NAME'', PStr ''INPUT-PATH-TO-FILE'')"
    by (simp add: extract_params_def get_json_def)
  have same: "trigger_dag_gcf sess req = trigger_dag_gcf sess (req\<lparr>req_body := NoBody\<rparr>)"
    by (simp only: handler_after_extract [OF ex] handler_after_extract [OF ex'])
  have calls: "snd (trigger_dag_gcf sess req) =
     [handler_call (PStr ''YOUR-BUCKET-NAME'') (PStr ''INPUT-PATH-TO-FILE'')]"
    by (simp add: handler_calls ex)
  from ex calls same show ?thesis
    by (intro conjI)
qed

text \<open>A POST whose body is \<^verbatim>\<open>{}\<close>, and one whose body is \<^verbatim>\<open>0\<close>.\<close>

theorem falsy_post_body_uses_defaults_witness:
  "extract_params \<lparr>req_method = ''POST'', req_body = Parsed (PDict []),
                   args = [(''bucket'', ''b1'')]\<rparr> =
     Inr (PStr ''YOUR-BUCKET-NAME'', PStr ''INPUT-PATH-TO-FILE'') \<and>
   snd (trigger_dag_gcf (\<lambda>c. Inl (OtherException ''Timeout'' ''timed out''))
          \<lparr>req_method = ''POST'', req_body = Parsed (PDict []),
           args = [(''bucket'', ''b1'')]\<rparr>) =
     [handler_call (PStr ''YOUR-BUCKET-NAME'') (PStr ''INPUT-PATH-TO-FILE'')] \<and>
   extract_params \<lparr>req_method = ''POST'', req_body = Parsed (PInt 0), args = []\<rparr> =
     Inr (PStr ''YOUR-BUCKET-NAME'', PStr ''INPUT-PATH-TO-FILE'')"
proof -
  have empty: "req_method \<lparr>req_method = ''POST'', req_body = Parsed (PDict []),
                   args = [(''bucket'', ''b1'')]\<rparr> = ''POST'' \<and>
      req_body \<lparr>req_method = ''POST'', req_body = Parsed (PDict []),
                   args = [(''bucket'', ''b1'')]\<rparr> = Parsed (PDict []) \<and>
      \<not> truthy (PDict [])"
    by simp
  have zero: "req_method \<lparr>req_method = ''POST'', req_body = Parsed (PInt 0), args = []\<rparr>
        = ''POST'' \<and>
      req_body \<lparr>req_method = ''POST'', req_body = Parsed (PInt 0), args = []\<rparr>
        = Parsed (PInt 0) \<and>
      \<not> truthy (PInt 0)"
    by simp
  from falsy_post_body_uses_defaults
         [OF empty, of "\<lambda>c. Inl (OtherException ''Timeout'' ''timed out'')"]
       falsy_post_body_uses_defaults
         [OF zero, of "\<lambda>c. Inl (OtherException ''Timeout'' ''timed out'')"]
  show ?thesis by blast
qed

section \<open>The statuses that are neither 200 nor 403\<close>

text \<open>
  For a client or server error other than 403, \<^verbatim>\<open>trigger_dag\<close> raises the
  \<^verbatim>\<open>HTTPError\<close> of \<^verbatim>\<open>raise_for_status\<close>, which names the status code and the reason.
\<close>

lemma trigger_dag_error_status:
  "sess (dag_run_call base dag data) = Inr r \<Longrightarrow>
   400 \<le> status_code r \<Longrightarrow> status_code r < 600 \<Longrightarrow> status_code r \<noteq> 403 \<Longrightarrow>
   fst (trigger_dag sess base dag data) =
     Inl (HTTPError (str_int (status_code r) @
        (if status_code r < 500 then '' Client Error: '' else '' Server Error: '') @
        reason r @ '' for url: '' @ url r))"
  by (simp add: trigger_dag_unfold raise_for_status_def)

text \<open>
  Claim C1 says that \<^verbatim>\<open>trigger_dag\<close> raises the HTTP error for every status that is
  neither 200 nor 403. At status 201 it does not: \<^verbatim>\<open>raise_for_status\<close> returns, the
  function falls off its end and returns \<^verbatim>\<open>None\<close> where its signature promises a
  \<^verbatim>\<open>str\<close>, and the handler reports success.
\<close>

theorem status_201_raises_nothing:
  "trigger_dag
     (\<lambda>c. Inr \<lparr>status_code = 201, reason = ''Created'', url = call_url c,
                headers = ''{}'', resp_text = ''created''\<rparr>)
     ''https://airflow.example'' ''etl'' (PDict []) =
     (Inr PNone, [dag_run_call ''https://airflow.example'' ''etl'' (PDict [])]) \<and>
   fst (trigger_dag_gcf
     (\<lambda>c. Inr \<lparr>status_code = 201, reason = ''Created'', url = call_url c,
                headers = ''{}'', resp_text = ''created''\<rparr>)
     \<lparr>req_method = ''GET'', req_body = NoBody, args = []\<rparr>) =
     success_return (PStr ''YOUR-BUCKET-NAME'') (PStr ''INPUT-PATH-TO-FILE'') PNone"
  by (simp add: trigger_dag_gcf_def handler_body_def extract_params_def args_get_def
      trigger_dag_unfold raise_for_status_def web_server_url_def dag_id_def dag_conf_def)

end
